theory Spec2Isabelle
  imports Complex_Main "HOL-Library.Sublist"
begin

section \<open>Floating-point values and pandas series\<close>

text \<open>
  The volatility engine (\<^verbatim>\<open>src/vol_toolkit/realized_vol.py\<close>) computes on IEEE doubles.
  They are modelled as the real numbers extended by the three special values a double can
  take: finite arithmetic is exact real arithmetic (rounding error and overflow are left
  out, and the sign of zero is not tracked); the special values follow the IEEE rules
  that numpy and pandas apply.
\<close>

datatype pyfloat = Fin real | PInf | NInf | NaN

datatype error = ValueError string | IndexError

text \<open>A pandas Series is the list of its values, in index order. Two series that are
  combined carry the default positional index \<open>0, 1, ...\<close> (or one common index), so
  that position \<open>i\<close> of one is aligned with position \<open>i\<close> of the other.\<close>

type_synonym series = "pyfloat list"

fun fadd :: "pyfloat \<Rightarrow> pyfloat \<Rightarrow> pyfloat" where
  "fadd NaN _ = NaN"
| "fadd _ NaN = NaN"
| "fadd (Fin a) (Fin b) = Fin (a + b)"
| "fadd PInf NInf = NaN"
| "fadd NInf PInf = NaN"
| "fadd PInf _ = PInf"
| "fadd _ PInf = PInf"
| "fadd NInf _ = NInf"
| "fadd _ NInf = NInf"

fun fmul :: "pyfloat \<Rightarrow> pyfloat \<Rightarrow> pyfloat" where
  "fmul NaN _ = NaN"
| "fmul _ NaN = NaN"
| "fmul (Fin a) (Fin b) = Fin (a * b)"
| "fmul PInf (Fin b) = (if 0 < b then PInf else if b < 0 then NInf else NaN)"
| "fmul NInf (Fin b) = (if 0 < b then NInf else if b < 0 then PInf else NaN)"
| "fmul (Fin a) PInf = (if 0 < a then PInf else if a < 0 then NInf else NaN)"
| "fmul (Fin a) NInf = (if 0 < a then NInf else if a < 0 then PInf else NaN)"
| "fmul PInf PInf = PInf"
| "fmul NInf NInf = PInf"
| "fmul PInf NInf = NInf"
| "fmul NInf PInf = NInf"

text \<open>numpy division: a zero divisor gives an infinity or NaN, never an exception.\<close>

fun fdiv :: "pyfloat \<Rightarrow> pyfloat \<Rightarrow> pyfloat" where
  "fdiv NaN _ = NaN"
| "fdiv _ NaN = NaN"
| "fdiv (Fin a) (Fin b) =
     (if b \<noteq> 0 then Fin (a / b)
      else if 0 < a then PInf else if a < 0 then NInf else NaN)"
| "fdiv (Fin a) PInf = Fin 0"
| "fdiv (Fin a) NInf = Fin 0"
| "fdiv PInf (Fin b) = (if 0 \<le> b then PInf else NInf)"
| "fdiv NInf (Fin b) = (if 0 \<le> b then NInf else PInf)"
| "fdiv PInf PInf = NaN"
| "fdiv PInf NInf = NaN"
| "fdiv NInf PInf = NaN"
| "fdiv NInf NInf = NaN"

text \<open>\<^verbatim>\<open>np.log\<close> on one value: minus infinity at zero, NaN below it.\<close>

fun flog :: "pyfloat \<Rightarrow> pyfloat" where
  "flog (Fin a) = (if 0 < a then Fin (ln a) else if a = 0 then NInf else NaN)"
| "flog PInf = PInf"
| "flog NInf = NaN"
| "flog NaN = NaN"

text \<open>\<^verbatim>\<open>x ** 2\<close> on one value.\<close>

fun fsq :: "pyfloat \<Rightarrow> pyfloat" where
  "fsq (Fin a) = Fin (a\<^sup>2)"
| "fsq PInf = PInf"
| "fsq NInf = PInf"
| "fsq NaN = NaN"

text \<open>\<^verbatim>\<open>math.sqrt\<close>: raises \<^verbatim>\<open>ValueError\<close> on a negative argument, passes NaN and
  plus infinity through.\<close>

fun math_sqrt :: "pyfloat \<Rightarrow> error + pyfloat" where
  "math_sqrt (Fin a) = (if a < 0 then Inl (ValueError ''math domain error'') else Inr (Fin (sqrt a)))"
| "math_sqrt PInf = Inr PInf"
| "math_sqrt NInf = Inl (ValueError ''math domain error'')"
| "math_sqrt NaN = Inr NaN"

subsection \<open>Series operations\<close>

text \<open>\<^verbatim>\<open>s.shift(1)\<close>: every value moves one position down, the first becomes NaN, the
  length stays.\<close>

definition shift1 :: "series \<Rightarrow> series" where
  "shift1 s = (if s = [] then [] else NaN # butlast s)"

text \<open>\<^verbatim>\<open>a / b\<close> on two series aligns them on the index: a position present in only
  one of them holds NaN in the quotient.\<close>

fun series_div :: "series \<Rightarrow> series \<Rightarrow> series" where
  "series_div [] [] = []"
| "series_div (x # xs) [] = NaN # series_div xs []"
| "series_div [] (y # ys) = NaN # series_div [] ys"
| "series_div (x # xs) (y # ys) = fdiv x y # series_div xs ys"

definition np_log :: "series \<Rightarrow> series" where
  "np_log s = map flog s"

definition dropna :: "series \<Rightarrow> series" where
  "dropna s = filter (\<lambda>x. x \<noteq> NaN) s"

text \<open>\<^verbatim>\<open>s.iloc[-window:]\<close> with Python's slice rules: for a positive window the last
  \<open>window\<close> values (all of them when there are fewer); \<open>-0\<close> is \<open>0\<close>, so a zero window
  is the whole series; a negative window drops the first \<open>-window\<close> values.\<close>

definition iloc_tail :: "series \<Rightarrow> int \<Rightarrow> series" where
  "iloc_tail s window =
     (if 0 < window then drop (length s - nat window) s else drop (nat (- window)) s)"

text \<open>The finite values of a series.\<close>

fun fins :: "series \<Rightarrow> real list" where
  "fins [] = []"
| "fins (Fin a # xs) = a # fins xs"
| "fins (_ # xs) = fins xs"

text \<open>\<^verbatim>\<open>s.mean()\<close> skips NaN; with nothing left it is NaN.\<close>

definition series_mean :: "series \<Rightarrow> pyfloat" where
  "series_mean s =
     (let vs = dropna s
      in if vs = [] then NaN else fdiv (foldl fadd (Fin 0) vs) (Fin (real (length vs))))"

text \<open>\<^verbatim>\<open>s.std()\<close>: the sample standard deviation (\<open>ddof = 1\<close>) of the values that are
  not NaN. With fewer than two of them the divisor \<open>count - 1\<close> is not positive and the
  result is NaN; an infinite value makes a deviation \<open>inf - inf\<close>, so the result is NaN
  there too. The mean and the deviations are exact here. In doubles the mean of \<open>n\<close>
  equal values can differ from them in the last place, so that on a window of identical
  returns other than \<open>0\<close> the program returns a value of the order \<open>1e-16\<close> where this
  definition gives \<open>0\<close>; no statement below rests on that case.\<close>

definition series_std :: "series \<Rightarrow> pyfloat" where
  "series_std s =
     (let vs = dropna s; n = length vs
      in if n \<le> 1 then NaN
         else if PInf \<in> set vs \<or> NInf \<in> set vs then NaN
         else let xs = fins vs; avg = sum_list xs / real n
              in Fin (sqrt (sum_list (map (\<lambda>x. (avg - x)\<^sup>2) xs) / real (n - 1))))"

subsection \<open>Formatting integers in messages\<close>

definition digit_char :: "nat \<Rightarrow> char" where
  "digit_char d = ''0123456789'' ! d"

fun str_nat :: "nat \<Rightarrow> string" where
  "str_nat n = (if n < 10 then [digit_char n] else str_nat (n div 10) @ [digit_char (n mod 10)])"

definition str_int :: "int \<Rightarrow> string" where
  "str_int i = (if i < 0 then ''-'' @ str_nat (nat (- i)) else str_nat (nat i))"

section \<open>Realized volatility estimators\<close>

definition TRADING_DAYS_PER_YEAR :: real where
  "TRADING_DAYS_PER_YEAR = 252"

text \<open>Line 26: \<^verbatim>\<open>np.log(prices / prices.shift(1)).dropna()\<close>.\<close>

definition log_returns :: "series \<Rightarrow> series" where
  "log_returns prices = dropna (np_log (series_div prices (shift1 prices)))"

definition calculate_realized_vol :: "series \<Rightarrow> int \<Rightarrow> bool \<Rightarrow> error + pyfloat" where
  "calculate_realized_vol prices window annualize =
     (let lr = log_returns prices
      in if int (length lr) < window
         then Inl (ValueError (''Need at least '' @ str_int window @ '' returns, got ''
                                 @ str_nat (length lr)))
         else let vol = series_std (iloc_tail lr window)
              in Inr (if annualize then fmul vol (Fin (sqrt TRADING_DAYS_PER_YEAR)) else vol))"

definition calculate_parkinson_vol :: "series \<Rightarrow> series \<Rightarrow> int \<Rightarrow> error + pyfloat" where
  "calculate_parkinson_vol high low window =
     (if int (length high) < window \<or> int (length low) < window
      then Inl (ValueError (''Need at least '' @ str_int window @ '' data points''))
      else let log_hl = np_log (series_div high low);
               recent = iloc_tail log_hl window;
               factor = 1 / (4 * ln 2);
               variance = fmul (Fin factor) (series_mean (map fsq recent))
           in math_sqrt (fmul variance (Fin TRADING_DAYS_PER_YEAR)))"

section \<open>GARCH(1,1) forecast\<close>

text \<open>
  The fit itself is done by the third-party \<^verbatim>\<open>arch\<close> package
  (\<^verbatim>\<open>arch_model(...).fit(...)\<close>, lines 76-77). It is a parameter of the model: a function
  from the scaled return series to the fitted parameters and the fitted conditional
  volatility path, all finite.
\<close>

record garch_fit =
  omega :: real
  alpha1 :: real
  beta1 :: real
  conditional_volatility :: "real list"

record garch_forecast =
  current_vol :: pyfloat
  forecast_vol :: pyfloat
  persistence :: pyfloat
  half_life :: pyfloat

text \<open>\<^verbatim>\<open>persistence ** horizon\<close> on a numpy double and a Python int: a negative
  exponent of zero gives infinity.\<close>

definition np_pow :: "real \<Rightarrow> int \<Rightarrow> pyfloat" where
  "np_pow p h =
     (if 0 \<le> h then Fin (p ^ nat h)
      else if p = 0 then PInf else Fin (1 / p ^ nat (- h)))"

text \<open>Lines 89-92.\<close>

definition long_run_var :: "real \<Rightarrow> real \<Rightarrow> real \<Rightarrow> real" where
  "long_run_var om pers current_var =
     (if pers < 1 then om / (1 - pers) else current_var)"

text \<open>Line 95.\<close>

definition forecast_var :: "real \<Rightarrow> real \<Rightarrow> real \<Rightarrow> int \<Rightarrow> pyfloat" where
  "forecast_var om pers current_var horizon =
     (let lrv = long_run_var om pers current_var
      in fadd (Fin lrv) (fmul (np_pow pers horizon) (Fin (current_var - lrv))))"

text \<open>The builtin \<^verbatim>\<open>max(x, 0)\<close>: \<open>0\<close> replaces \<open>x\<close> only when \<open>0 > x\<close> holds, so NaN
  stays.\<close>

fun py_max0 :: "pyfloat \<Rightarrow> pyfloat" where
  "py_max0 (Fin v) = (if 0 > v then Fin 0 else Fin v)"
| "py_max0 NInf = Fin 0"
| "py_max0 PInf = PInf"
| "py_max0 NaN = NaN"

text \<open>Rounding to the nearest integer, a tie to the even one.\<close>

definition rint_even :: "real \<Rightarrow> int" where
  "rint_even y =
     (let f = \<lfloor>y\<rfloor>; d = y - of_int f
      in if d < 1 / 2 then f else if 1 / 2 < d then f + 1
         else if even f then f else f + 1)"

text \<open>\<^verbatim>\<open>round(x, ndigits)\<close>; infinities and NaN are returned as they are.\<close>

fun py_round :: "pyfloat \<Rightarrow> nat \<Rightarrow> pyfloat" where
  "py_round (Fin x) ndigits = Fin (of_int (rint_even (x * 10 ^ ndigits)) / 10 ^ ndigits)"
| "py_round PInf _ = PInf"
| "py_round NInf _ = NInf"
| "py_round NaN _ = NaN"

text \<open>Lines 102-105.\<close>

definition half_life_of :: "real \<Rightarrow> pyfloat" where
  "half_life_of pers =
     (if 0 < pers \<and> pers < 1 then Fin (ln 2 / (- ln pers)) else PInf)"

text \<open>\<^verbatim>\<open>math.sqrt(v) / 100.0 * math.sqrt(TRADING_DAYS_PER_YEAR)\<close> (lines 98-99).\<close>

definition annualized_vol :: "pyfloat \<Rightarrow> error + pyfloat" where
  "annualized_vol v =
     (case math_sqrt v of
        Inl e \<Rightarrow> Inl e
      | Inr s \<Rightarrow> Inr (fmul (fdiv s (Fin 100)) (Fin (sqrt TRADING_DAYS_PER_YEAR))))"

definition forecast_garch :: "(series \<Rightarrow> garch_fit) \<Rightarrow> series \<Rightarrow> int \<Rightarrow> error + garch_forecast" where
  "forecast_garch arch_fit returns horizon =
     (let scaled = map (\<lambda>x. fmul x (Fin 100)) (dropna returns)
      in if length scaled < 100
         then Inl (ValueError ''Need at least 100 returns for GARCH estimation'')
         else let result = arch_fit scaled;
                  pers = alpha1 result + beta1 result;
                  cond_vol = conditional_volatility result
              in if cond_vol = [] then Inl IndexError
                 else let current_var = (last cond_vol)\<^sup>2;
                          fv = forecast_var (omega result) pers current_var horizon
                      in case annualized_vol (Fin current_var) of
                           Inl e \<Rightarrow> Inl e
                         | Inr cur \<Rightarrow>
                             (case annualized_vol (py_max0 fv) of
                                Inl e \<Rightarrow> Inl e
                              | Inr fore \<Rightarrow>
                                  Inr \<lparr>current_vol = py_round cur 4,
                                       forecast_vol = py_round fore 4,
                                       persistence = py_round (Fin pers) 4,
                                       half_life = py_round (half_life_of pers) 1\<rparr>))"

subsection \<open>Example inputs\<close>

text \<open>A fit with \<open>\<alpha> = 1/4\<close>, \<open>\<beta> = 1/4\<close>, and one with \<open>\<alpha> = 1/8\<close>, \<open>\<beta> = 0\<close>.\<close>

definition fit_half :: "series \<Rightarrow> garch_fit" where
  "fit_half s = \<lparr>omega = 1, alpha1 = 1 / 4, beta1 = 1 / 4, conditional_volatility = [2]\<rparr>"

definition fit_eighth :: "series \<Rightarrow> garch_fit" where
  "fit_eighth s = \<lparr>omega = 1, alpha1 = 1 / 8, beta1 = 0, conditional_volatility = [1]\<rparr>"

declare str_nat.simps [simp del]

section \<open>Auxiliary facts\<close>

subsection \<open>Series of finite values\<close>

lemma foldl_fadd_Fin: "foldl fadd (Fin a) (map Fin xs) = Fin (a + sum_list xs)"
  by (induction xs arbitrary: a) (simp_all add: add.assoc)

lemma dropna_map_Fin: "dropna (map Fin xs) = map Fin xs"
  by (induction xs) (simp_all add: dropna_def)

lemma fins_map_Fin: "fins (map Fin xs) = xs"
  by (induction xs) simp_all

lemma series_mean_Fin:
  "xs \<noteq> [] \<Longrightarrow> series_mean (map Fin xs) = Fin (sum_list xs / real (length xs))"
  by (simp add: series_mean_def dropna_map_Fin foldl_fadd_Fin)

lemma series_div_same_length:
  "length xs = length ys \<Longrightarrow> series_div xs ys = map (\<lambda>(x, y). fdiv x y) (zip xs ys)"
  by (induction xs ys rule: list_induct2) simp_all

lemma all_Fin_map: "(\<forall>x\<in>set t. \<exists>v. x = Fin v) \<Longrightarrow> t = map Fin (fins t)"
proof (induction t)
  case Nil
  then show ?case by simp
next
  case (Cons a t)
  then obtain v where "a = Fin v" by auto
  with Cons show ?case by simp
qed

lemma series_std_Fin:
  assumes "2 \<le> length xs"
  shows "series_std (map Fin xs) =
    Fin (sqrt (sum_list (map (\<lambda>x. (sum_list xs / real (length xs) - x)\<^sup>2) xs) / real (length xs - 1)))"
proof -
  have "PInf \<notin> set (map Fin xs)" "NInf \<notin> set (map Fin xs)" by auto
  with assms show ?thesis
    by (simp add: series_std_def dropna_map_Fin fins_map_Fin Let_def del: set_map)
qed

lemma sum_sq_dev_zero_imp:
  assumes "sum_list (map (\<lambda>x. (a - x)\<^sup>2) xs) = (0::real)"
  shows "\<forall>x\<in>set xs. x = a"
proof -
  from assms have "\<forall>x\<in>set xs. (a - x)\<^sup>2 = 0"
    by (subst (asm) sum_list_nonneg_eq_0_iff) auto
  then show ?thesis by simp
qed

lemma sum_sq_dev_all_zero:
  assumes "\<forall>x\<in>set xs. x = (0::real)"
  shows "sum_list (map (\<lambda>x. (sum_list xs / real (length xs) - x)\<^sup>2) xs) = 0"
proof -
  from assms have "sum_list xs = 0" by (induction xs) simp_all
  with assms have "\<forall>x\<in>set xs. (sum_list xs / real (length xs) - x)\<^sup>2 = 0" by simp
  then show ?thesis by (subst sum_list_nonneg_eq_0_iff) auto
qed


subsection \<open>Log returns of positive prices\<close>

lemma shift1_length: "length (shift1 s) = length s"
  by (simp add: shift1_def)

lemma shift1_set: "set (shift1 s) \<subseteq> insert NaN (set s)"
  by (auto simp: shift1_def dest: in_set_butlastD)

lemma flog_fdiv_good:
  assumes "a = NaN \<or> (\<exists>x>0. a = Fin x)" "b = NaN \<or> (\<exists>x>0. b = Fin x)"
  shows "flog (fdiv a b) = NaN \<or> (\<exists>v. flog (fdiv a b) = Fin v)"
  using assms by (cases a; cases b) auto

lemma log_returns_finite:
  assumes "\<forall>p\<in>set prices. p = NaN \<or> (\<exists>x>0. p = Fin x)"
  shows "\<forall>r\<in>set (log_returns prices). \<exists>v. r = Fin v"
proof
  fix r assume "r \<in> set (log_returns prices)"
  then have rn: "r \<noteq> NaN" and
    "r \<in> set (map flog (map (\<lambda>(x, y). fdiv x y) (zip prices (shift1 prices))))"
    by (simp_all add: log_returns_def dropna_def np_log_def series_div_same_length shift1_length)
  then obtain a b where ab: "(a, b) \<in> set (zip prices (shift1 prices))" and r: "r = flog (fdiv a b)"
    by auto
  from ab have "a \<in> set prices" "b \<in> set (shift1 prices)"
    by (auto dest: set_zip_leftD set_zip_rightD)
  with assms shift1_set have "a = NaN \<or> (\<exists>x>0. a = Fin x)" "b = NaN \<or> (\<exists>x>0. b = Fin x)"
    by auto
  from flog_fdiv_good[OF this] rn r show "\<exists>v. r = Fin v" by auto
qed

subsection \<open>The Parkinson window\<close>

lemma parkinson_window:
  assumes "length hs = length ls" "\<forall>h\<in>set hs. 0 < h" "\<forall>l\<in>set ls. 0 < l"
  shows "np_log (series_div (map Fin hs) (map Fin ls)) =
           map Fin (map (\<lambda>(h, l). ln (h / l)) (zip hs ls))"
  using assms
proof (induction hs ls rule: list_induct2)
  case Nil
  then show ?case by (simp add: np_log_def)
next
  case (Cons h hs l ls)
  then show ?case by (simp add: np_log_def)
qed

lemma series_div_length: "length (series_div xs ys) = max (length xs) (length ys)"
  by (induction xs ys rule: series_div.induct) simp_all

lemma series_div_unpaired:
  "min (length xs) (length ys) \<le> i \<Longrightarrow> i < max (length xs) (length ys)
     \<Longrightarrow> series_div xs ys ! i = NaN"
proof (induction xs ys arbitrary: i rule: series_div.induct)
  case 1
  then show ?case by simp
next
  case (2 x xs)
  then show ?case by (cases i) simp_all
next
  case (3 y ys)
  then show ?case by (cases i) simp_all
next
  case (4 x xs y ys)
  then show ?case by (cases i) simp_all
qed

lemma fsq_cases: "fsq x = NaN \<or> fsq x = PInf \<or> (\<exists>v\<ge>0. fsq x = Fin v)"
  by (cases x) auto

lemma foldl_fadd_nonneg:
  assumes "acc = PInf \<or> (\<exists>v\<ge>0. acc = Fin v)"
    and "\<forall>x\<in>set xs. x = PInf \<or> (\<exists>v\<ge>0. x = Fin v)"
  shows "foldl fadd acc xs = PInf \<or> (\<exists>v\<ge>0. foldl fadd acc xs = Fin v)"
  using assms
proof (induction xs arbitrary: acc)
  case Nil
  then show ?case by simp
next
  case (Cons x xs)
  have "fadd acc x = PInf \<or> (\<exists>v\<ge>0. fadd acc x = Fin v)"
    using Cons.prems by (cases acc; cases x) auto
  moreover have "\<forall>x\<in>set xs. x = PInf \<or> (\<exists>v\<ge>0. x = Fin v)"
    using Cons.prems by simp
  ultimately show ?case using Cons.IH by simp
qed

lemma fdiv_pos_nonneg:
  assumes "0 < n" and "a = PInf \<or> (\<exists>v\<ge>0. a = Fin v)"
  shows "fdiv a (Fin n) = PInf \<or> (\<exists>v\<ge>0. fdiv a (Fin n) = Fin v)"
  using assms by (cases a) auto

lemma series_mean_sq_cases:
  "series_mean (map fsq xs) = NaN \<or> series_mean (map fsq xs) = PInf
     \<or> (\<exists>v\<ge>0. series_mean (map fsq xs) = Fin v)"
proof (cases "dropna (map fsq xs) = []")
  case True
  then show ?thesis by (simp add: series_mean_def)
next
  case False
  let ?vs = "dropna (map fsq xs)"
  have "\<forall>x\<in>set ?vs. x = PInf \<or> (\<exists>v\<ge>0. x = Fin v)"
    using fsq_cases by (auto simp: dropna_def)
  then have "foldl fadd (Fin 0) ?vs = PInf \<or> (\<exists>v\<ge>0. foldl fadd (Fin 0) ?vs = Fin v)"
    by (intro foldl_fadd_nonneg) auto
  moreover have "0 < real (length ?vs)" using False by simp
  ultimately have "fdiv (foldl fadd (Fin 0) ?vs) (Fin (real (length ?vs))) = PInf
      \<or> (\<exists>v\<ge>0. fdiv (foldl fadd (Fin 0) ?vs) (Fin (real (length ?vs))) = Fin v)"
    by (intro fdiv_pos_nonneg)
  with False show ?thesis by (simp add: series_mean_def Let_def)
qed

lemma parkinson_sqrt_defined:
  "\<exists>v. math_sqrt (fmul (fmul (Fin (1 / (4 * ln 2))) (series_mean (map fsq xs))) (Fin TRADING_DAYS_PER_YEAR)) = Inr v"
proof -
  have pos: "(0::real) < 1 / (4 * ln 2)" by simp
  from series_mean_sq_cases[of xs] show ?thesis
  proof (elim disjE exE conjE)
    assume "series_mean (map fsq xs) = NaN"
    then show ?thesis by simp
  next
    assume "series_mean (map fsq xs) = PInf"
    then show ?thesis using pos by (simp add: TRADING_DAYS_PER_YEAR_def)
  next
    fix v :: real assume v: "0 \<le> v" "series_mean (map fsq xs) = Fin v"
    have "0 \<le> 1 / (4 * ln 2) * v * 252" using v(1) pos by simp
    then show ?thesis using v(2) by (simp add: TRADING_DAYS_PER_YEAR_def)
  qed
qed

subsection \<open>The forecast\<close>

lemma forecast_var_at_horizon:
  "0 \<le> h \<Longrightarrow> forecast_var om p cv h =
     Fin (long_run_var om p cv + p ^ nat h * (cv - long_run_var om p cv))"
  by (simp add: forecast_var_def np_pow_def Let_def)

lemma annualized_vol_nonneg:
  "0 \<le> v \<Longrightarrow> annualized_vol (Fin v) = Inr (Fin (sqrt v / 100 * sqrt 252))"
  by (simp add: annualized_vol_def TRADING_DAYS_PER_YEAR_def)

lemma forecast_garch_success:
  assumes len: "100 \<le> length (dropna returns)"
    and fit: "fit = arch_fit (map (\<lambda>x. fmul x (Fin 100)) (dropna returns))"
    and cvne: "conditional_volatility fit \<noteq> []"
    and fv: "forecast_var (omega fit) (alpha1 fit + beta1 fit)
               ((last (conditional_volatility fit))\<^sup>2) h = Fin fv"
  shows "forecast_garch arch_fit returns h =
           Inr \<lparr>current_vol = py_round (Fin (sqrt ((last (conditional_volatility fit))\<^sup>2) / 100 * sqrt 252)) 4,
                forecast_vol = py_round (Fin (sqrt (max fv 0) / 100 * sqrt 252)) 4,
                persistence = py_round (Fin (alpha1 fit + beta1 fit)) 4,
                half_life = py_round (half_life_of (alpha1 fit + beta1 fit)) 1\<rparr>"
proof -
  have cur: "annualized_vol (Fin ((last (conditional_volatility fit))\<^sup>2))
      = Inr (Fin (sqrt ((last (conditional_volatility fit))\<^sup>2) / 100 * sqrt 252))"
    by (rule annualized_vol_nonneg) simp
  have mx: "py_max0 (Fin fv) = Fin (max fv 0)" by (simp add: max_def)
  have fore: "annualized_vol (py_max0 (Fin fv)) = Inr (Fin (sqrt (max fv 0) / 100 * sqrt 252))"
    unfolding mx by (rule annualized_vol_nonneg) simp
  have guard: "\<not> length (map (\<lambda>x. fmul x (Fin 100)) (dropna returns)) < 100"
    using len by simp
  show ?thesis
    unfolding forecast_garch_def Let_def if_not_P[OF guard] fit[symmetric] if_not_P[OF cvne] fv
    by (simp only: cur fore sum.case)
qed
lemma dropna_replicate_zero: "dropna (replicate n (Fin 0)) = replicate n (Fin 0)"
  by (simp add: dropna_def)
lemma rint_even_nonneg: "0 \<le> y \<Longrightarrow> 0 \<le> rint_even y"
  by (simp add: rint_even_def Let_def)

lemma forecast_garch_fields:
  assumes "forecast_garch arch_fit returns horizon = Inr r"
    and "fit = arch_fit (map (\<lambda>x. fmul x (Fin 100)) (dropna returns))"
  shows "persistence r = py_round (Fin (alpha1 fit + beta1 fit)) 4
         \<and> half_life r = py_round (half_life_of (alpha1 fit + beta1 fit)) 1"
  using assms
  by (auto simp: forecast_garch_def Let_def split: if_splits sum.splits)
lemma ln_eighth: "ln (1 / 8 :: real) = - (3 * ln 2)"
proof -
  have "ln (8::real) = ln (2 ^ 3)" by simp
  also have "\<dots> = 3 * ln 2" by (subst ln_realpow) simp_all
  finally show ?thesis by (simp add: ln_div)
qed

lemma half_life_eighth: "half_life_of (1 / 8) = Fin (1 / 3)"
  by (simp add: half_life_of_def ln_eighth)

lemma round_third: "py_round (Fin (1 / 3)) 1 = Fin (3 / 10)"
proof -
  have "\<lfloor>10 / 3 :: real\<rfloor> = 3" by linarith
  then have "rint_even (10 / 3) = 3" by (simp add: rint_even_def Let_def)
  then show ?thesis by simp
qed

lemma fit_eighth_result:
  "map_sum id half_life (forecast_garch fit_eighth (replicate 100 (Fin 0)) 5) = Inr (Fin (3 / 10))"
proof -
  have fv: "forecast_var (omega (fit_eighth s)) (alpha1 (fit_eighth s) + beta1 (fit_eighth s))
      ((last (conditional_volatility (fit_eighth s)))\<^sup>2) 5 = Fin (8 / 7 + (1 / 8) ^ 5 * (1 - 8 / 7))" for s
    by (simp add: forecast_var_at_horizon long_run_var_def fit_eighth_def)
  have "100 \<le> length (dropna (replicate 100 (Fin 0)))" by (simp add: dropna_replicate_zero)
  from forecast_garch_success[where arch_fit = fit_eighth, OF this refl _ fv]
  show ?thesis by (simp add: fit_eighth_def half_life_eighth round_third [unfolded One_nat_def] del: py_round.simps)
qed

lemma log_returns_up_down: "log_returns [Fin 1, Fin 2, Fin 1] = [Fin (ln 2), Fin (ln (1 / 2))]"
  by (simp add: log_returns_def shift1_def np_log_def dropna_def)

lemma log_returns_flat3: "log_returns [Fin 1, Fin 1, Fin 1] = [Fin 0, Fin 0]"
  by (simp add: log_returns_def shift1_def np_log_def dropna_def)

section \<open>The claims\<close>

subsection \<open>C1: the multi-step forecast variance\<close>

text \<open>
  C1. For a return series with at least 100 values that are not NaN and a horizon
  \<open>h \<ge> 1\<close>, \<^verbatim>\<open>forecast_garch\<close> computes the forecast variance
  \<open>long_run_var + persistence ^ h * (current_var - long_run_var)\<close>, where
  \<open>persistence = \<alpha> + \<beta>\<close>, \<open>current_var\<close> is the square of the last fitted conditional
  volatility, and \<open>long_run_var\<close> is \<open>\<omega> / (1 - persistence)\<close> below persistence one and
  \<open>current_var\<close> from one on. The returned \<^verbatim>\<open>forecast_vol\<close> is the annualized square root
  of that variance, rounded to four places. The fit returns a conditional volatility path
  that is not empty.
\<close>

theorem forecast_garch_formula:
  assumes len: "100 \<le> length (dropna returns)"
    and h1: "1 \<le> h"
    and fit: "fit = arch_fit (map (\<lambda>x. fmul x (Fin 100)) (dropna returns))"
    and cvne: "conditional_volatility fit \<noteq> []"
  shows "let p = alpha1 fit + beta1 fit;
             cv = (last (conditional_volatility fit))\<^sup>2;
             lrv = (if p < 1 then omega fit / (1 - p) else cv);
             fv = lrv + p ^ nat h * (cv - lrv)
         in forecast_var (omega fit) p cv h = Fin fv
            \<and> (\<exists>r. forecast_garch arch_fit returns h = Inr r
                   \<and> forecast_vol r = py_round (Fin (sqrt (max fv 0) / 100 * sqrt 252)) 4)"
proof -
  let ?p = "alpha1 fit + beta1 fit"
  let ?cv = "(last (conditional_volatility fit))\<^sup>2"
  let ?lrv = "if ?p < 1 then omega fit / (1 - ?p) else ?cv"
  let ?fv = "?lrv + ?p ^ nat h * (?cv - ?lrv)"
  have fv: "forecast_var (omega fit) ?p ?cv h = Fin ?fv"
    using h1 by (simp add: forecast_var_at_horizon long_run_var_def)
  from forecast_garch_success[where arch_fit = arch_fit and returns = returns and fit = fit, OF len fit cvne fv]
  have "\<exists>r. forecast_garch arch_fit returns h = Inr r
           \<and> forecast_vol r = py_round (Fin (sqrt (max ?fv 0) / 100 * sqrt 252)) 4"
    by simp
  with fv show ?thesis unfolding Let_def by blast
qed

theorem forecast_garch_formula_witness:
  "100 \<le> length (dropna (replicate 100 (Fin 0))) \<and> (1::int) \<le> 1
   \<and> conditional_volatility (fit_half (map (\<lambda>x. fmul x (Fin 100)) (dropna (replicate 100 (Fin 0))))) \<noteq> []
   \<and> forecast_var 1 (1 / 2) 4 1 = Fin 3
   \<and> (\<exists>r. forecast_garch fit_half (replicate 100 (Fin 0)) 1 = Inr r
          \<and> forecast_vol r = py_round (Fin (sqrt 3 / 100 * sqrt 252)) 4)"
  using forecast_garch_formula [of "replicate 100 (Fin 0)" 1
      "fit_half (map (\<lambda>x. fmul x (Fin 100)) (dropna (replicate 100 (Fin 0))))" fit_half]
  by (simp add: dropna_replicate_zero fit_half_def Let_def)

subsection \<open>C2: half-life and persistence of the result\<close>

text \<open>
  C2, as stated, at the fit \<open>\<alpha> = 1/8\<close>, \<open>\<beta> = 0\<close>: the persistence is \<open>1/8\<close>, so
  \<open>ln 2 / (- ln persistence)\<close> is \<open>1/3\<close>, but the result is built with
  \<^verbatim>\<open>round(half_life, 1)\<close> (line 111) and its \<^verbatim>\<open>half_life\<close> field is \<open>0.3\<close>.
\<close>

theorem forecast_garch_half_life_not_exact:
  "map_sum id half_life (forecast_garch fit_eighth (replicate 100 (Fin 0)) 5) = Inr (Fin (3 / 10))
   \<and> map_sum id half_life (forecast_garch fit_eighth (replicate 100 (Fin 0)) 5)
     \<noteq> Inr (Fin (ln 2 / (- ln (1 / 8))))"
  by (simp add: fit_eighth_result ln_eighth)

text \<open>
  C2, amended. Whenever \<^verbatim>\<open>forecast_garch\<close> returns a result, with
  \<open>persistence = \<alpha> + \<beta>\<close> of the fit: the \<^verbatim>\<open>half_life\<close> field is
  \<open>ln 2 / (- ln persistence)\<close> rounded to one decimal place when \<open>0 < persistence < 1\<close>, and
  plus infinity when \<open>persistence \<ge> 1\<close>; the \<^verbatim>\<open>persistence\<close> field is the persistence
  rounded to four decimal places, and it is not negative when the fitted \<open>\<alpha>\<close> and \<open>\<beta>\<close>
  are not.
\<close>

theorem forecast_garch_half_life_rounded:
  assumes ok: "forecast_garch arch_fit returns horizon = Inr r"
    and fit: "fit = arch_fit (map (\<lambda>x. fmul x (Fin 100)) (dropna returns))"
    and al: "0 \<le> alpha1 fit" and be: "0 \<le> beta1 fit"
  shows "let p = alpha1 fit + beta1 fit
         in (0 < p \<and> p < 1 \<longrightarrow> half_life r = py_round (Fin (ln 2 / (- ln p))) 1)
            \<and> (1 \<le> p \<longrightarrow> half_life r = PInf)
            \<and> persistence r = py_round (Fin p) 4
            \<and> (\<exists>v. persistence r = Fin v \<and> 0 \<le> v)"
proof -
  let ?p = "alpha1 fit + beta1 fit"
  from forecast_garch_fields[OF ok fit]
  have pers: "persistence r = py_round (Fin ?p) 4"
    and hl: "half_life r = py_round (half_life_of ?p) 1" by simp_all
  have "0 \<le> ?p * 10 ^ 4" using al be by simp
  then have "0 \<le> rint_even (?p * 10 ^ 4)" by (rule rint_even_nonneg)
  then have "0 \<le> real_of_int (rint_even (?p * 10 ^ 4)) / 10 ^ 4" by simp
  moreover have "persistence r = Fin (real_of_int (rint_even (?p * 10 ^ 4)) / 10 ^ 4)"
    unfolding pers by (rule py_round.simps)
  ultimately have "\<exists>v. persistence r = Fin v \<and> 0 \<le> v" by blast
  moreover have "0 < ?p \<and> ?p < 1 \<longrightarrow> half_life r = py_round (Fin (ln 2 / (- ln ?p))) 1"
    using hl by (simp add: half_life_of_def)
  moreover have "1 \<le> ?p \<longrightarrow> half_life r = PInf"
    using hl by (simp add: half_life_of_def)
  ultimately show ?thesis using pers unfolding Let_def by blast
qed

theorem forecast_garch_half_life_rounded_witness:
  "(0::real) \<le> alpha1 (fit_half []) \<and> (0::real) \<le> beta1 (fit_half [])
   \<and> map_sum id half_life (forecast_garch fit_half (replicate 100 (Fin 0)) 5)
       = Inr (py_round (Fin (ln 2 / (- ln (1 / 2)))) 1)
   \<and> map_sum id persistence (forecast_garch fit_half (replicate 100 (Fin 0)) 5)
       = Inr (py_round (Fin (1 / 2)) 4)"
proof -
  have fv: "forecast_var (omega (fit_half s)) (alpha1 (fit_half s) + beta1 (fit_half s))
      ((last (conditional_volatility (fit_half s)))\<^sup>2) 5 = Fin (2 + (1 / 2) ^ 5 * (4 - 2))" for s
    by (simp add: forecast_var_at_horizon long_run_var_def fit_half_def)
  have "100 \<le> length (dropna (replicate 100 (Fin 0)))" by (simp add: dropna_replicate_zero)
  from forecast_garch_success[where arch_fit = fit_half, OF this refl _ fv]
  obtain r where ok: "forecast_garch fit_half (replicate 100 (Fin 0)) 5 = Inr r"
    by (auto simp: fit_half_def)
  have "half_life r = py_round (Fin (ln 2 / (- ln (1 / 2)))) 1
      \<and> persistence r = py_round (Fin (1 / 2)) 4"
    using forecast_garch_half_life_rounded [OF ok refl]
    by (simp add: fit_half_def Let_def del: py_round.simps)
  with ok show ?thesis by (simp add: fit_half_def del: py_round.simps)
qed

subsection \<open>C3: fewer than 100 returns\<close>

text \<open>
  C3. With fewer than 100 values that are not NaN, \<^verbatim>\<open>forecast_garch\<close> returns no
  result: it raises the insufficient-data error (a \<^verbatim>\<open>ValueError\<close> in the source), and the
  message mentions \<open>100\<close>.
\<close>

theorem forecast_garch_insufficient:
  assumes "length (dropna returns) < 100"
  shows "forecast_garch arch_fit returns horizon
           = Inl (ValueError ''Need at least 100 returns for GARCH estimation'')
         \<and> sublist ''100'' ''Need at least 100 returns for GARCH estimation''"
proof -
  have "sublist ''100'' ''Need at least 100 returns for GARCH estimation''" by code_simp
  with assms show ?thesis by (simp add: forecast_garch_def Let_def)
qed

theorem forecast_garch_insufficient_witness:
  "length (dropna (replicate 50 (Fin 0))) < 100
   \<and> forecast_garch fit_half (replicate 50 (Fin 0)) 5
       = Inl (ValueError ''Need at least 100 returns for GARCH estimation'')"
  using forecast_garch_insufficient [of "replicate 50 (Fin 0)" fit_half 5]
  by (simp add: dropna_def)

subsection \<open>C4: annualization\<close>

text \<open>
  C4. The result of \<^verbatim>\<open>calculate_realized_vol\<close> with \<^verbatim>\<open>annualize=True\<close> is the result
  with \<^verbatim>\<open>annualize=False\<close> times \<open>sqrt 252\<close>; the two calls raise the same error when
  they raise one.
\<close>

theorem realized_vol_annualize:
  "calculate_realized_vol prices w True
     = map_sum id (\<lambda>v. fmul v (Fin (sqrt 252))) (calculate_realized_vol prices w False)"
  by (simp add: calculate_realized_vol_def Let_def TRADING_DAYS_PER_YEAR_def)

theorem realized_vol_annualize_witness:
  "calculate_realized_vol [Fin 1, Fin 1, Fin 1] 2 True
     = map_sum id (\<lambda>v. fmul v (Fin (sqrt 252))) (calculate_realized_vol [Fin 1, Fin 1, Fin 1] 2 False)"
  using realized_vol_annualize [of "[Fin 1, Fin 1, Fin 1]" 2] by simp

subsection \<open>C5: sign and zero of the realized volatility\<close>

text \<open>
  C5, as stated, at the window \<open>w = 1\<close>: the prices \<open>100, 101\<close> give one log return,
  the series is as long as the window, and the sample standard deviation of one value
  (divisor \<open>count - 1 = 0\<close>) is NaN: the result is neither non-negative nor zero, although
  the one trailing return is trivially identical to itself.
\<close>

theorem realized_vol_single_return_nan:
  "length (log_returns [Fin 100, Fin 101]) = 1
   \<and> calculate_realized_vol [Fin 100, Fin 101] 1 True = Inr NaN"
  by (simp add: calculate_realized_vol_def log_returns_def shift1_def np_log_def dropna_def
      iloc_tail_def series_std_def)

text \<open>
  C5, amended. For a window \<open>w \<ge> 2\<close> and prices that are positive or missing, with at
  least \<open>w\<close> log returns: the result of \<^verbatim>\<open>calculate_realized_vol\<close> is a non-negative
  number; it is zero only if the \<open>w\<close> trailing returns are all identical, and it is
  zero when they are all \<open>0\<close> (a flat price window). Nothing is stated for a window of
  identical returns other than \<open>0\<close>: there the result depends on the rounding of the
  mean in doubles.
\<close>

theorem realized_vol_nonneg_zero_only_if_flat:
  assumes good: "\<forall>p\<in>set prices. p = NaN \<or> (\<exists>x>0. p = Fin x)"
    and w2: "2 \<le> w"
    and len: "w \<le> int (length (log_returns prices))"
  shows "\<exists>v. calculate_realized_vol prices w annualize = Inr (Fin v) \<and> 0 \<le> v
           \<and> (v = 0 \<longrightarrow>
                (\<forall>x\<in>set (drop (length (log_returns prices) - nat w) (log_returns prices)).
                 \<forall>y\<in>set (drop (length (log_returns prices) - nat w) (log_returns prices)). x = y))
           \<and> ((\<forall>x\<in>set (drop (length (log_returns prices) - nat w) (log_returns prices)).
                  x = Fin 0) \<longrightarrow> v = 0)"
proof -
  let ?lr = "log_returns prices"
  let ?t = "drop (length ?lr - nat w) ?lr"
  have tfin: "\<forall>x\<in>set ?t. \<exists>v. x = Fin v"
    using log_returns_finite[OF good] by (auto dest: in_set_dropD)
  define xs where "xs = fins ?t"
  have t: "?t = map Fin xs" unfolding xs_def by (rule all_Fin_map[OF tfin])
  have lt: "length ?t = nat w" using len w2 by simp
  then have lxs: "length xs = nat w" using t by (metis length_map)
  with w2 have two: "2 \<le> length xs" by auto
  let ?avg = "sum_list xs / real (length xs)"
  let ?ss = "sum_list (map (\<lambda>x. (?avg - x)\<^sup>2) xs)"
  let ?s = "sqrt (?ss / real (length xs - 1))"
  have std: "series_std ?t = Fin ?s" unfolding t by (rule series_std_Fin[OF two])
  have ss0: "0 \<le> ?ss" by (rule sum_list_nonneg) auto
  have s0: "0 \<le> ?s" using ss0 by simp
  have s_ss: "?s = 0 \<longleftrightarrow> ?ss = 0" using two by simp
  have only_if: "?s = 0 \<longrightarrow> (\<forall>x\<in>set ?t. \<forall>y\<in>set ?t. x = y)"
  proof
    assume "?s = 0"
    with s_ss have "?ss = 0" by simp
    then have "\<forall>x\<in>set xs. x = ?avg" by (rule sum_sq_dev_zero_imp)
    then have "\<forall>x\<in>set xs. \<forall>y\<in>set xs. x = y" by metis
    then show "\<forall>x\<in>set ?t. \<forall>y\<in>set ?t. x = y" unfolding t by auto
  qed
  have flat: "(\<forall>x\<in>set ?t. x = Fin 0) \<longrightarrow> ?s = 0"
  proof
    assume "\<forall>x\<in>set ?t. x = Fin 0"
    then have "\<forall>x\<in>set xs. x = 0" unfolding t by auto
    then have "?ss = 0" by (rule sum_sq_dev_all_zero)
    with s_ss show "?s = 0" by simp
  qed
  have it: "iloc_tail ?lr w = ?t" using w2 by (simp add: iloc_tail_def)
  have res: "calculate_realized_vol prices w annualize =
      Inr (Fin (if annualize then ?s * sqrt 252 else ?s))"
    using len by (simp add: calculate_realized_vol_def Let_def it std TRADING_DAYS_PER_YEAR_def)
  show ?thesis
  proof (cases annualize)
    case True
    have "0 \<le> ?s * sqrt 252" using s0 by simp
    moreover have "?s * sqrt 252 = 0 \<longleftrightarrow> ?s = 0" by simp
    ultimately show ?thesis using res True only_if flat by simp
  next
    case False
    then show ?thesis using res s0 only_if flat by simp
  qed
qed

theorem realized_vol_nonneg_zero_only_if_flat_witness:
  "list_all (\<lambda>p. p = NaN \<or> (\<exists>x>0. p = Fin x)) [Fin 1, Fin 2, Fin 1]
   \<and> (2::int) \<le> 2 \<and> 2 \<le> int (length (log_returns [Fin 1, Fin 2, Fin 1]))
   \<and> (\<exists>v. calculate_realized_vol [Fin 1, Fin 2, Fin 1] 2 False = Inr (Fin v) \<and> 0 < v)
   \<and> calculate_realized_vol [Fin 1, Fin 1, Fin 1] 2 False = Inr (Fin 0)"
proof -
  have "ln (1 / 2 :: real) \<noteq> ln 2" by (simp add: ln_div)
  then have a: "\<exists>v. calculate_realized_vol [Fin 1, Fin 2, Fin 1] 2 False = Inr (Fin v) \<and> 0 < v"
    using realized_vol_nonneg_zero_only_if_flat [of "[Fin 1, Fin 2, Fin 1]" 2 False]
    by (auto simp: log_returns_up_down simp del: ln_divide_pos)
  have b: "calculate_realized_vol [Fin 1, Fin 1, Fin 1] 2 False = Inr (Fin 0)"
    using realized_vol_nonneg_zero_only_if_flat [of "[Fin 1, Fin 1, Fin 1]" 2 False]
    by (auto simp: log_returns_flat3)
  from a b show ?thesis by (simp add: log_returns_up_down)
qed


subsection \<open>C6: the Parkinson formula\<close>

text \<open>
  C6. For high and low series of positive prices, of equal length at least the window
  \<open>w \<ge> 1\<close>, \<^verbatim>\<open>calculate_parkinson_vol\<close> returns the square root of \<open>1 / (4 ln 2)\<close> times
  the mean of the squares of \<open>ln (high / low)\<close> over the last \<open>w\<close> observations, times
  \<open>252\<close>.
\<close>

theorem parkinson_formula:
  assumes eq: "length hs = length ls"
    and w1: "1 \<le> w"
    and len: "w \<le> int (length hs)"
    and hpos: "\<forall>h\<in>set hs. 0 < h"
    and lpos: "\<forall>l\<in>set ls. 0 < l"
  shows "calculate_parkinson_vol (map Fin hs) (map Fin ls) w =
           Inr (Fin (sqrt (1 / (4 * ln 2)
                  * (sum_list (map (\<lambda>(h, l). (ln (h / l))\<^sup>2)
                                   (drop (length hs - nat w) (zip hs ls))) / real (nat w))
                  * 252)))"
proof -
  let ?z = "drop (length hs - nat w) (zip hs ls)"
  let ?sq = "map (\<lambda>(h, l). (ln (h / l))\<^sup>2) ?z"
  have lz: "length ?z = nat w" using eq len w1 by simp
  then have ne: "?sq \<noteq> []" using w1 by auto
  have recent: "iloc_tail (np_log (series_div (map Fin hs) (map Fin ls))) w =
      map Fin (map (\<lambda>(h, l). ln (h / l)) ?z)"
    using w1 eq by (simp add: parkinson_window[OF eq hpos lpos] iloc_tail_def drop_map)
  have sq: "map fsq (map Fin (map (\<lambda>(h, l). ln (h / l)) ?z)) = map Fin ?sq"
    by (simp add: case_prod_unfold)
  have mean: "series_mean (map Fin ?sq) = Fin (sum_list ?sq / real (nat w))"
    using series_mean_Fin[OF ne] lz by simp
  have nonneg: "0 \<le> 1 / (4 * ln 2) * (sum_list ?sq / real (nat w)) * 252"
  proof -
    have "0 \<le> sum_list ?sq" by (rule sum_list_nonneg) auto
    moreover have "(0::real) < ln 2" by simp
    ultimately show ?thesis by simp
  qed
  have guard: "\<not> (int (length (map Fin hs)) < w \<or> int (length (map Fin ls)) < w)"
    using len eq by simp
  show ?thesis
    unfolding calculate_parkinson_vol_def Let_def recent sq mean if_not_P[OF guard]
    using nonneg by (simp add: TRADING_DAYS_PER_YEAR_def)
qed

theorem parkinson_formula_witness:
  "length [2, 2 :: real] = length [1, 1 :: real] \<and> (1::int) \<le> 2 \<and> 2 \<le> int (length [2, 2 :: real])
   \<and> list_all (\<lambda>h. 0 < h) [2, 2 :: real] \<and> list_all (\<lambda>l. 0 < l) [1, 1 :: real]
   \<and> calculate_parkinson_vol [Fin 2, Fin 2] [Fin 1, Fin 1] 2
       = Inr (Fin (sqrt (1 / (4 * ln 2) * (((ln 2)\<^sup>2 + (ln 2)\<^sup>2) / 2) * 252)))"
  using parkinson_formula [of "[2, 2]" "[1, 1]" 2]
  by simp

subsection \<open>C7: zero range\<close>

text \<open>
  C7. For a window \<open>w \<ge> 1\<close> and high and low series of equal length at least \<open>w\<close>,
  with the high equal to the low (a finite price other than zero) at every point of the
  trailing window, \<^verbatim>\<open>calculate_parkinson_vol\<close> raises no error and returns exactly
  \<open>0.0\<close>.
\<close>

theorem parkinson_zero_range:
  assumes eq: "length high = length low"
    and w1: "1 \<le> w"
    and len: "w \<le> int (length high)"
    and flat: "\<forall>i. length high - nat w \<le> i \<and> i < length high \<longrightarrow>
                 (\<exists>x. x \<noteq> 0 \<and> high ! i = Fin x \<and> low ! i = Fin x)"
  shows "calculate_parkinson_vol high low w = Inr (Fin 0)"
proof -
  let ?n = "length high"
  let ?recent = "iloc_tail (np_log (series_div high low)) w"
  have "?recent = replicate (nat w) (Fin 0)"
  proof (rule nth_equalityI)
    show "length ?recent = length (replicate (nat w) (Fin 0))"
      using eq len w1 by (simp add: iloc_tail_def np_log_def series_div_same_length)
  next
    fix i assume "i < length ?recent"
    then have i: "i < nat w"
      using eq len w1 by (simp add: iloc_tail_def np_log_def series_div_same_length)
    let ?j = "?n - nat w + i"
    have j: "?n - nat w \<le> ?j" "?j < ?n" using i len by auto
    with flat obtain x where x: "x \<noteq> 0" "high ! ?j = Fin x" "low ! ?j = Fin x" by blast
    have "?recent ! i = flog (fdiv (high ! ?j) (low ! ?j))"
      using eq len w1 i j by (simp add: iloc_tail_def np_log_def series_div_same_length)
    also have "\<dots> = Fin 0" using x by simp
    finally show "?recent ! i = replicate (nat w) (Fin 0) ! i" using i by simp
  qed
  then have sq: "map fsq ?recent = map Fin (replicate (nat w) 0)" by simp
  have "series_mean (map Fin (replicate (nat w) 0)) = Fin 0"
    using w1 by (subst series_mean_Fin) (auto simp: sum_list_replicate)
  with sq have mean: "series_mean (map fsq ?recent) = Fin 0" by simp
  have guard: "\<not> (int (length high) < w \<or> int (length low) < w)"
    using len eq by simp
  show ?thesis
    unfolding calculate_parkinson_vol_def Let_def mean if_not_P[OF guard]
    by (simp add: TRADING_DAYS_PER_YEAR_def)
qed

theorem parkinson_zero_range_witness:
  "length [Fin 100, Fin 100] = length [Fin 100, Fin 100] \<and> (1::int) \<le> 2
   \<and> 2 \<le> int (length [Fin 100, Fin 100])
   \<and> calculate_parkinson_vol [Fin 100, Fin 100] [Fin 100, Fin 100] 2 = Inr (Fin 0)"
proof -
  have flat: "\<forall>i. length [Fin 100, Fin 100] - nat 2 \<le> i \<and> i < length [Fin 100, Fin 100] \<longrightarrow>
      (\<exists>x. x \<noteq> 0 \<and> [Fin 100, Fin 100] ! i = Fin x \<and> [Fin 100, Fin 100] ! i = Fin x)"
    by (auto simp: less_Suc_eq numeral_2_eq_2)
  have "calculate_parkinson_vol [Fin 100, Fin 100] [Fin 100, Fin 100] 2 = Inr (Fin 0)"
    by (rule parkinson_zero_range [OF _ _ _ flat]) simp_all
  then show ?thesis by simp
qed

subsection \<open>C8: what the insufficient-data errors carry\<close>

text \<open>
  C8. The error of \<^verbatim>\<open>calculate_realized_vol\<close> carries the required and the actual
  count (\<open>20\<close> and \<open>2\<close> below). The errors of \<^verbatim>\<open>calculate_parkinson_vol\<close> and of
  \<^verbatim>\<open>forecast_garch\<close> carry the required count only: with one data point, and with 50
  returns, the actual count (\<open>1\<close>, \<open>50\<close>) occurs nowhere in the message.
\<close>

theorem insufficient_data_messages:
  "calculate_realized_vol [Fin 100, Fin 101, Fin 102] 20 True
     = Inl (ValueError ''Need at least 20 returns, got 2'')
   \<and> calculate_parkinson_vol [Fin 1] [Fin (9 / 10)] 20
       = Inl (ValueError ''Need at least 20 data points'')
   \<and> \<not> sublist (str_nat 1) ''Need at least 20 data points''
   \<and> forecast_garch fit_half (replicate 50 (Fin 0)) 5
       = Inl (ValueError ''Need at least 100 returns for GARCH estimation'')
   \<and> \<not> sublist (str_nat 50) ''Need at least 100 returns for GARCH estimation''"
proof -
  have s20: "str_int 20 = ''20''" by code_simp
  have s2: "str_nat 2 = ''2''" by code_simp
  have "length (log_returns [Fin 100, Fin 101, Fin 102]) = 2"
    by (simp add: log_returns_def shift1_def np_log_def dropna_def)
  then have a: "calculate_realized_vol [Fin 100, Fin 101, Fin 102] 20 True
     = Inl (ValueError ''Need at least 20 returns, got 2'')"
    by (simp add: calculate_realized_vol_def Let_def s20 s2)
  have b: "calculate_parkinson_vol [Fin 1] [Fin (9 / 10)] 20
       = Inl (ValueError ''Need at least 20 data points'')"
    by (simp add: calculate_parkinson_vol_def s20)
  have c: "\<not> sublist (str_nat 1) ''Need at least 20 data points''" by code_simp
  have d: "forecast_garch fit_half (replicate 50 (Fin 0)) 5
       = Inl (ValueError ''Need at least 100 returns for GARCH estimation'')"
    by (simp add: forecast_garch_def dropna_replicate_zero)
  have e: "\<not> sublist (str_nat 50) ''Need at least 100 returns for GARCH estimation''" by code_simp
  from a b c d e show ?thesis by blast
qed

subsection \<open>C9: high and low series of different lengths\<close>

text \<open>
  C9, as stated, at a high series of three prices and a low series of two, window 2:
  no error is raised. The quotient is aligned on the index, its third position is NaN,
  the mean skips it, and the result is \<open>0.0\<close>.
\<close>

theorem parkinson_mismatched_no_error:
  "calculate_parkinson_vol [Fin 1, Fin 1, Fin 1] [Fin 1, Fin 1] 2 = Inr (Fin 0)"
  by (simp add: calculate_parkinson_vol_def np_log_def iloc_tail_def series_mean_def
      dropna_def TRADING_DAYS_PER_YEAR_def)

text \<open>
  C9, amended. For high and low series of different lengths,
  \<^verbatim>\<open>calculate_parkinson_vol\<close> checks the two lengths against the window only: when one
  of the series has fewer than \<open>w\<close> points it raises the insufficient-data
  \<^verbatim>\<open>ValueError\<close>, and otherwise it raises no error and returns a value. The quotient
  \<^verbatim>\<open>high / low\<close> is aligned on the index: its last position, present in the longer
  series only, is NaN (and the mean skips it).
\<close>

theorem parkinson_mismatched_lengths:
  assumes "length high \<noteq> length low"
  shows "(if int (length high) < w \<or> int (length low) < w
          then calculate_parkinson_vol high low w
                 = Inl (ValueError (''Need at least '' @ str_int w @ '' data points''))
          else \<exists>v. calculate_parkinson_vol high low w = Inr v)
         \<and> last (series_div high low) = NaN"
proof -
  let ?q = "series_div high low"
  have len: "length ?q = max (length high) (length low)" by (rule series_div_length)
  with assms have ne: "?q \<noteq> []" by auto
  have "?q ! (length ?q - 1) = NaN"
    using assms ne unfolding len by (intro series_div_unpaired) auto
  with ne have "last ?q = NaN" by (simp add: last_conv_nth)
  moreover have "if int (length high) < w \<or> int (length low) < w
          then calculate_parkinson_vol high low w
                 = Inl (ValueError (''Need at least '' @ str_int w @ '' data points''))
          else \<exists>v. calculate_parkinson_vol high low w = Inr v"
    using parkinson_sqrt_defined by (simp add: calculate_parkinson_vol_def Let_def)
  ultimately show ?thesis by blast
qed

theorem parkinson_mismatched_lengths_witness:
  "length [Fin 1, Fin 1, Fin 1] \<noteq> length [Fin 1, Fin 1]
   \<and> (\<exists>v. calculate_parkinson_vol [Fin 1, Fin 1, Fin 1] [Fin 1, Fin 1] 2 = Inr v)
   \<and> last (series_div [Fin 1, Fin 1, Fin 1] [Fin 1, Fin 1]) = NaN"
  using parkinson_mismatched_lengths [of "[Fin 1, Fin 1, Fin 1]" "[Fin 1, Fin 1]" 2]
  by simp

subsection \<open>C10: the forecast variance is not negative\<close>

text \<open>
  C10. For fitted parameters \<open>\<omega> > 0\<close>, \<open>\<alpha> \<ge> 0\<close>, \<open>\<beta> \<ge> 0\<close>, a current variance
  that is not negative and a horizon that is not negative, the forecast variance is a
  non-negative number: \<^verbatim>\<open>max(forecast_var, 0)\<close> leaves it as it is, and the square root
  is taken of a non-negative argument and raises no error.
\<close>

theorem forecast_var_nonneg:
  assumes om: "0 < om" and al: "0 \<le> al" and be: "0 \<le> be" and cv: "0 \<le> cv" and h: "0 \<le> h"
  shows "\<exists>v. forecast_var om (al + be) cv h = Fin v \<and> 0 \<le> v
           \<and> py_max0 (forecast_var om (al + be) cv h) = forecast_var om (al + be) cv h
           \<and> math_sqrt (py_max0 (forecast_var om (al + be) cv h)) = Inr (Fin (sqrt v))"
proof -
  let ?p = "al + be"
  let ?lrv = "long_run_var om ?p cv"
  let ?v = "?lrv + ?p ^ nat h * (cv - ?lrv)"
  have p0: "0 \<le> ?p" using al be by simp
  have v0: "0 \<le> ?v"
  proof (cases "?p < 1")
    case True
    then have lrv: "0 \<le> ?lrv" using om by (simp add: long_run_var_def)
    have pw0: "0 \<le> ?p ^ nat h" using p0 by simp
    have pw1: "?p ^ nat h \<le> 1" using p0 True by (simp add: power_le_one)
    have "?v = (1 - ?p ^ nat h) * ?lrv + ?p ^ nat h * cv" by (simp add: algebra_simps)
    moreover have "0 \<le> (1 - ?p ^ nat h) * ?lrv" using pw1 lrv by simp
    moreover have "0 \<le> ?p ^ nat h * cv" using pw0 cv by simp
    ultimately show ?thesis by linarith
  next
    case False
    then show ?thesis using cv by (simp add: long_run_var_def)
  qed
  have "forecast_var om ?p cv h = Fin ?v" using h by (rule forecast_var_at_horizon)
  with v0 show ?thesis by (intro exI[of _ ?v]) simp
qed

theorem forecast_var_nonneg_witness:
  "(0::real) < 1 \<and> (0::real) \<le> 1 / 4 \<and> (0::real) \<le> 4 \<and> (0::int) \<le> 1
   \<and> py_max0 (forecast_var 1 (1 / 4 + 1 / 4) 4 1) = forecast_var 1 (1 / 4 + 1 / 4) 4 1
   \<and> forecast_var 1 (1 / 4 + 1 / 4) 4 1 = Fin 3"
  using forecast_var_nonneg [of 1 "1 / 4" "1 / 4" 4 1]
  by (simp add: forecast_var_def long_run_var_def np_pow_def)

end
